theory Spec2Isabelle
  imports Main
begin

section \<open>Go values the tracing wrapper handles\<close>

text \<open>
  The repository is a thin wrapper around the OpenTelemetry SDK and the Jaeger client.
  Its own code is three initialisers (\<open>InitTracerProvider\<close> and two copies of
  \<open>InitTracer\<close>), the helpers \<open>newExporter\<close> and \<open>newTraceProvider\<close> (the same text
  in all three packages) and the HTTP middleware \<open>ExtractTraceInfoMiddleware\<close>.
  The libraries are not part of the repository: what they compute is a parameter of
  the model (the record \<open>sdk\<close> below), and what the wrapper passes to them and does
  with their results is modelled as written.
\<close>

text \<open>The process environment; \<open>os.Getenv\<close> yields the empty string for an unset
  variable.\<close>

type_synonym environ = "string \<rightharpoonup> string"

definition Getenv :: "environ \<Rightarrow> string \<Rightarrow> string" where
  "Getenv env key = (case env key of None \<Rightarrow> [] | Some v \<Rightarrow> v)"

text \<open>Go's \<open>error\<close> interface: either a value made by \<open>errors.New\<close>, which carries
  its message, or an error of the libraries, of an unknown type \<open>'e\<close>.\<close>

datatype 'e error = errors_New string | sdk_error 'e

text \<open>A call either returns or panics with a value.\<close>

datatype ('a, 'e) outcome = Returns 'a | Panics 'e

text \<open>The arguments the wrapper builds for \<open>jaeger.New\<close>.\<close>

datatype CollectorEndpointOption = WithEndpoint string

datatype EndpointOption = WithCollectorEndpoint "CollectorEndpointOption list"

text \<open>Attributes (\<open>attribute.KeyValue\<close> with a string value).\<close>

datatype KeyValue = KeyValue (Key: string) (Val: string)

text \<open>Modelled from the spec: the constant \<open>semconv.ServiceNameKey\<close> of the imported
  package \<open>semconv/v1.12.0\<close>, which the spec names as the attribute \<open>service.name\<close>;
  \<open>ServiceNameKey.String(v)\<close> pairs the key with a string value.\<close>

definition ServiceNameKey :: string where
  "ServiceNameKey = ''service.name''"

definition ServiceNameKey_String :: "string \<Rightarrow> KeyValue" where
  "ServiceNameKey_String v = KeyValue ServiceNameKey v"

text \<open>The options the wrapper passes to \<open>sdktrace.NewTracerProvider\<close>. Both the
  exporter and the resource are Go pointers or interfaces and may be nil (\<open>None\<close>).\<close>

datatype ('x, 'r) TracerProviderOption =
    WithBatcher "'x option"
  | WithResource "'r option"

text \<open>A tracer provider object: the options it was constructed with and whether it has
  been shut down. Providers live on the heap and are shared by reference; a reference
  is an index into the list of allocated providers.\<close>

record ('x, 'r) TracerProvider =
  options :: "('x, 'r) TracerProviderOption list"
  isShutdown :: bool

type_synonym provider_ref = nat

text \<open>A tracer handle: the provider it was obtained from and the instrumentation
  name the SDK has given it.\<close>

record Tracer =
  provider :: provider_ref
  instrumentationName :: string

text \<open>HTTP headers (\<open>http.Header\<close>), requests and the response writer.\<close>

type_synonym header = "string \<rightharpoonup> string list"

record 'c Request =
  Method :: string
  URL :: string
  Header :: header
  Body :: string
  Context :: 'c

record ResponseWriter =
  respHeader :: header
  status :: "nat option"
  written :: string

section \<open>The libraries as parameters\<close>

text \<open>
  \<^item> \<open>jaeger_New\<close>: \<open>jaeger.New\<close>, returning the pair (exporter, error) as Go does;
  \<^item> \<open>semconv_SchemaURL\<close>: the constant \<open>semconv.SchemaURL\<close>;
  \<^item> \<open>resource_Default\<close>, \<open>resource_NewWithAttributes\<close>, \<open>resource_Merge\<close>,
    \<open>resource_Attributes\<close>: package \<open>resource\<close>;
  \<^item> \<open>propagation_TraceContext\<close>: the value \<open>propagation.TraceContext{}\<close>;
  \<^item> \<open>Extract\<close>: the method \<open>Extract\<close> of a propagator;
  \<^item> \<open>headerTraceID\<close>: the trace ID a valid \<open>traceparent\<close> header encodes
    (\<open>None\<close> when the headers hold no valid one);
  \<^item> \<open>contextTraceID\<close>: the trace ID of the span context a context carries
    (\<open>None\<close> when there is no active trace);
  \<^item> \<open>tracer_name\<close>: the instrumentation name that \<open>tp.Tracer(name)\<close> gives the
    tracer it returns for a requested name (the SDK need not keep the name as it is:
    it substitutes a name of its own for an empty one).
\<close>

record ('x, 'e, 'r, 'p, 'c) sdk =
  jaeger_New :: "EndpointOption \<Rightarrow> 'x option \<times> 'e error option"
  semconv_SchemaURL :: string
  resource_Default :: "'r option"
  resource_NewWithAttributes :: "string \<Rightarrow> KeyValue list \<Rightarrow> 'r option"
  resource_Merge :: "'r option \<Rightarrow> 'r option \<Rightarrow> 'r option \<times> 'e error option"
  resource_Attributes :: "'r \<Rightarrow> KeyValue list"
  propagation_TraceContext :: 'p
  Extract :: "'p \<Rightarrow> 'c \<Rightarrow> header \<Rightarrow> 'c"
  headerTraceID :: "header \<Rightarrow> string option"
  contextTraceID :: "'c \<Rightarrow> string option"
  tracer_name :: "string \<Rightarrow> string"

section \<open>Process state\<close>

text \<open>The environment, the two process-wide globals of package \<open>otel\<close> (the tracer
  provider, \<open>None\<close> while none has been registered, and the text-map propagator),
  the heap of provider objects, and the calls of \<open>jaeger.New\<close> made so far with their
  arguments, oldest first.\<close>

record ('x, 'r, 'p) world =
  environ :: environ
  globalTracerProvider :: "provider_ref option"
  globalTextMapPropagator :: 'p
  providers :: "('x, 'r) TracerProvider list"
  jaegerCalls :: "EndpointOption list"

definition SetTracerProvider ::
  "provider_ref \<Rightarrow> ('x, 'r, 'p) world \<Rightarrow> ('x, 'r, 'p) world" where
  "SetTracerProvider tp w = w\<lparr>globalTracerProvider := Some tp\<rparr>"

definition SetTextMapPropagator ::
  "'p \<Rightarrow> ('x, 'r, 'p) world \<Rightarrow> ('x, 'r, 'p) world" where
  "SetTextMapPropagator p w = w\<lparr>globalTextMapPropagator := p\<rparr>"

definition GetTextMapPropagator :: "('x, 'r, 'p) world \<Rightarrow> 'p" where
  "GetTextMapPropagator w = globalTextMapPropagator w"

text \<open>\<open>sdktrace.NewTracerProvider(opts...)\<close> allocates a provider that is not shut
  down and returns its reference.\<close>

definition NewTracerProvider ::
  "('x, 'r) TracerProviderOption list \<Rightarrow> ('x, 'r, 'p) world
     \<Rightarrow> provider_ref \<times> ('x, 'r, 'p) world" where
  "NewTracerProvider opts w =
     (length (providers w),
      w\<lparr>providers := providers w @ [\<lparr>options = opts, isShutdown = False\<rparr>]\<rparr>)"

text \<open>\<open>tp.Shutdown(ctx)\<close> marks the provider as shut down; the wrapper discards the
  error it returns.\<close>

definition Shutdown ::
  "provider_ref \<Rightarrow> ('x, 'r, 'p) world \<Rightarrow> ('x, 'r, 'p) world" where
  "Shutdown tp w =
     (if tp < length (providers w)
      then w\<lparr>providers := (providers w)[tp := (providers w ! tp)\<lparr>isShutdown := True\<rparr>]\<rparr>
      else w)"

text \<open>\<open>tp.Tracer(name)\<close>: a handle on the provider \<open>tp\<close>, named as the library
  names it.\<close>

definition TracerProvider_Tracer ::
  "('x, 'e, 'r, 'p, 'c) sdk \<Rightarrow> provider_ref \<Rightarrow> string \<Rightarrow> Tracer" where
  "TracerProvider_Tracer lib tp name =
     \<lparr>provider = tp, instrumentationName = tracer_name lib name\<rparr>"

section \<open>The wrapper\<close>

definition JAEGER_ADDRESS_missing :: string where
  "JAEGER_ADDRESS_missing =
     ''couldn't read .env variables for JAEGER_ADDRESS. Please check if you provided it correctly''"

text \<open>A call of \<open>jaeger.New\<close>: the result the library gives, with the call noted in
  the process state.\<close>

definition call_jaeger_New ::
  "('x, 'e, 'r, 'p, 'c) sdk \<Rightarrow> EndpointOption \<Rightarrow> ('x, 'r, 'p) world
     \<Rightarrow> ('x option \<times> 'e error option) \<times> ('x, 'r, 'p) world" where
  "call_jaeger_New lib opt w = (jaeger_New lib opt, w\<lparr>jaegerCalls := jaegerCalls w @ [opt]\<rparr>)"

text \<open>\<open>newExporter\<close> (the same in all three packages).\<close>

definition newExporter ::
  "('x, 'e, 'r, 'p, 'c) sdk \<Rightarrow> ('x, 'r, 'p) world
     \<Rightarrow> ('x option \<times> 'e error option) \<times> ('x, 'r, 'p) world" where
  "newExporter lib w =
     (let addr = Getenv (environ w) ''JAEGER_ADDRESS'' in
      if addr = [] then ((None, Some (errors_New JAEGER_ADDRESS_missing)), w)
      else
        (case call_jaeger_New lib (WithCollectorEndpoint [WithEndpoint addr]) w of
           ((exp, Some err), w') \<Rightarrow> ((None, Some err), w')
         | ((exp, None), w') \<Rightarrow> ((exp, None), w')))"

text \<open>\<open>newTraceProvider\<close> (the same in all three packages): it panics with the error
  of \<open>resource.Merge\<close> and has no error result.\<close>

definition newTraceProvider ::
  "('x, 'e, 'r, 'p, 'c) sdk \<Rightarrow> 'x option \<Rightarrow> string \<Rightarrow> ('x, 'r, 'p) world
     \<Rightarrow> (provider_ref, 'e error) outcome \<times> ('x, 'r, 'p) world" where
  "newTraceProvider lib exp serviceName w =
     (case resource_Merge lib (resource_Default lib)
             (resource_NewWithAttributes lib (semconv_SchemaURL lib)
                [ServiceNameKey_String serviceName]) of
        (r, Some err) \<Rightarrow> (Panics err, w)
      | (r, None) \<Rightarrow>
          (case NewTracerProvider [WithBatcher exp, WithResource r] w of
             (tp, w') \<Rightarrow> (Returns tp, w')))"

text \<open>The call of \<open>resource.Merge\<close> that \<open>newTraceProvider\<close> makes for a service
  name.\<close>

abbreviation serviceResource ::
  "('x, 'e, 'r, 'p, 'c) sdk \<Rightarrow> string \<Rightarrow> 'r option \<times> 'e error option" where
  "serviceResource lib serviceName \<equiv>
     resource_Merge lib (resource_Default lib)
       (resource_NewWithAttributes lib (semconv_SchemaURL lib)
          [ServiceNameKey_String serviceName])"

text \<open>\<open>InitTracerProvider\<close> (package \<open>traceLib\<close>).\<close>

definition InitTracerProvider ::
  "('x, 'e, 'r, 'p, 'c) sdk \<Rightarrow> string \<Rightarrow> ('x, 'r, 'p) world
     \<Rightarrow> (provider_ref option \<times> 'e error option, 'e error) outcome \<times> ('x, 'r, 'p) world" where
  "InitTracerProvider lib serviceName w =
     (case newExporter lib w of
        ((exp, Some err), w0) \<Rightarrow> (Returns (None, Some err), w0)
      | ((exp, None), w0) \<Rightarrow>
          (case newTraceProvider lib exp serviceName w0 of
             (Panics e, w1) \<Rightarrow> (Panics e, w1)
           | (Returns tp, w1) \<Rightarrow>
               (let w2 = SetTracerProvider tp w1;
                    w3 = SetTextMapPropagator (propagation_TraceContext lib) w2
                in (Returns (Some tp, None), w3))))"

text \<open>\<open>InitTracer\<close> (package \<open>tracer\<close>, returning \<open>trace.Tracer\<close>). The deferred
  \<open>tp.Shutdown(ctx)\<close> is registered after \<open>newTraceProvider\<close> has returned, so it
  runs on the one return that follows it, after the other statements.\<close>

definition InitTracer ::
  "('x, 'e, 'r, 'p, 'c) sdk \<Rightarrow> string \<Rightarrow> ('x, 'r, 'p) world
     \<Rightarrow> (Tracer option \<times> 'e error option, 'e error) outcome \<times> ('x, 'r, 'p) world" where
  "InitTracer lib serviceName w =
     (case newExporter lib w of
        ((exp, Some err), w0) \<Rightarrow> (Returns (None, Some err), w0)
      | ((exp, None), w0) \<Rightarrow>
          (case newTraceProvider lib exp serviceName w0 of
             (Panics e, w1) \<Rightarrow> (Panics e, w1)
           | (Returns tp, w1) \<Rightarrow>
               (let w2 = SetTracerProvider tp w1;
                    tracer = TracerProvider_Tracer lib tp serviceName;
                    w3 = SetTextMapPropagator (propagation_TraceContext lib) w2;
                    w4 = Shutdown tp w3
                in (Returns (Some tracer, None), w4))))"

text \<open>\<open>InitTracer\<close> (package \<open>traceLib\<close>, returning \<open>*trace.Tracer\<close>): the same body,
  returning the address of the local variable that holds the tracer, which is never
  nil.\<close>

definition traceLib_InitTracer ::
  "('x, 'e, 'r, 'p, 'c) sdk \<Rightarrow> string \<Rightarrow> ('x, 'r, 'p) world
     \<Rightarrow> (Tracer option \<times> 'e error option, 'e error) outcome \<times> ('x, 'r, 'p) world" where
  "traceLib_InitTracer lib serviceName w =
     (case newExporter lib w of
        ((exp, Some err), w0) \<Rightarrow> (Returns (None, Some err), w0)
      | ((exp, None), w0) \<Rightarrow>
          (case newTraceProvider lib exp serviceName w0 of
             (Panics e, w1) \<Rightarrow> (Panics e, w1)
           | (Returns tp, w1) \<Rightarrow>
               (let w2 = SetTracerProvider tp w1;
                    tracer = TracerProvider_Tracer lib tp serviceName;
                    w3 = SetTextMapPropagator (propagation_TraceContext lib) w2;
                    w4 = Shutdown tp w3
                in (Returns (Some tracer, None), w4))))"

text \<open>An \<open>http.Handler\<close>: \<open>ServeHTTP(w, r)\<close> acts on the response writer and on the
  process state.\<close>

type_synonym ('x, 'r, 'p, 'c) Handler =
  "ResponseWriter \<Rightarrow> 'c Request \<Rightarrow> ('x, 'r, 'p) world \<Rightarrow> ResponseWriter \<times> ('x, 'r, 'p) world"

definition WithContext :: "'c Request \<Rightarrow> 'c \<Rightarrow> 'c Request" where
  "WithContext r ctx = r\<lparr>Context := ctx\<rparr>"

text \<open>\<open>ExtractTraceInfoMiddleware\<close> (the same in both copies).\<close>

definition ExtractTraceInfoMiddleware ::
  "('x, 'e, 'r, 'p, 'c) sdk \<Rightarrow> ('x, 'r, 'p, 'c) Handler \<Rightarrow> ('x, 'r, 'p, 'c) Handler" where
  "ExtractTraceInfoMiddleware lib next = (\<lambda>rw r w.
     (let ctx = Extract lib (GetTextMapPropagator w) (Context r) (Header r)
      in next rw (WithContext r ctx) w))"

section \<open>A concrete instance of the libraries\<close>

text \<open>
  A small instance of the library interface, on which the wrapper can be evaluated:
  an exporter is the endpoint it was built for, a resource is a schema URL with its
  attributes (an attribute with an empty key is dropped), a context is the trace ID it
  carries (if any), a tracer requested under the empty name gets the SDK's own name,
  and there are two propagators, the one that ignores the carrier and the one that
  reads the \<open>traceparent\<close> header.
\<close>

datatype propagator = NoopPropagator | TraceContextPropagator

type_synonym demo_resource = "string \<times> KeyValue list"

definition isLowerHex :: "char \<Rightarrow> bool" where
  "isLowerHex c = (c \<in> set ''0123456789abcdef'')"

text \<open>The trace ID of a version-00 \<open>traceparent\<close> value
  (\<open>00-<32 hex>-<16 hex>-<2 hex>\<close>, IDs not all zero), read from the canonical header key.\<close>

definition traceparentTraceID :: "header \<Rightarrow> string option" where
  "traceparentTraceID h =
     (case h ''Traceparent'' of
        Some (v # vs) \<Rightarrow>
          (let traceID = take 32 (drop 3 v); spanID = take 16 (drop 36 v) in
           if length v = 55 \<and> take 2 v = ''00''
              \<and> v ! 2 = CHR ''-'' \<and> v ! 35 = CHR ''-'' \<and> v ! 52 = CHR ''-''
              \<and> list_all isLowerHex (traceID @ spanID @ drop 53 v)
              \<and> traceID \<noteq> replicate 32 (CHR ''0'') \<and> spanID \<noteq> replicate 16 (CHR ''0'')
           then Some traceID else None)
      | _ \<Rightarrow> None)"

fun demo_jaeger_New :: "EndpointOption \<Rightarrow> string option \<times> string error option" where
  "demo_jaeger_New (WithCollectorEndpoint [WithEndpoint a]) =
     (if take 4 a = ''http'' then (Some a, None)
      else (None, Some (sdk_error ''unsupported protocol scheme'')))"
| "demo_jaeger_New (WithCollectorEndpoint opts) = (None, Some (sdk_error ''no endpoint''))"

fun demo_Merge ::
  "demo_resource option \<Rightarrow> demo_resource option \<Rightarrow> demo_resource option \<times> string error option" where
  "demo_Merge None b = (b, None)"
| "demo_Merge (Some a) None = (Some a, None)"
| "demo_Merge (Some (ua, as)) (Some (ub, bs)) =
     (if ua \<noteq> [] \<and> ub \<noteq> [] \<and> ua \<noteq> ub
      then (None, Some (sdk_error ''conflicting Schema URL''))
      else (Some (if ub = [] then ua else ub,
                  bs @ filter (\<lambda>kv. Key kv \<notin> Key ` set bs) as), None))"

fun demo_Extract :: "propagator \<Rightarrow> string option \<Rightarrow> header \<Rightarrow> string option" where
  "demo_Extract NoopPropagator ctx h = ctx"
| "demo_Extract TraceContextPropagator ctx h =
     (case traceparentTraceID h of Some t \<Rightarrow> Some t | None \<Rightarrow> ctx)"

definition demoSdk :: "(string, string, demo_resource, propagator, string option) sdk" where
  "demoSdk =
     \<lparr>jaeger_New = demo_jaeger_New,
      semconv_SchemaURL = ''https://opentelemetry.io/schemas/1.12.0'',
      resource_Default =
        Some (''https://opentelemetry.io/schemas/1.12.0'',
              [KeyValue ''telemetry.sdk.language'' ''go'',
               KeyValue ''service.name'' ''unknown_service'']),
      resource_NewWithAttributes = (\<lambda>url kvs. Some (url, filter (\<lambda>kv. Key kv \<noteq> []) kvs)),
      resource_Merge = demo_Merge,
      resource_Attributes = snd,
      propagation_TraceContext = TraceContextPropagator,
      Extract = demo_Extract,
      headerTraceID = traceparentTraceID,
      contextTraceID = (\<lambda>ctx. ctx),
      tracer_name = (\<lambda>name. if name = [] then ''go.opentelemetry.io/otel/sdk/tracer'' else name)\<rparr>"

text \<open>The same libraries in a release whose default resource has another schema
  URL than the \<open>semconv\<close> package the wrapper imports.\<close>

definition newerSdk :: "(string, string, demo_resource, propagator, string option) sdk" where
  "newerSdk =
     demoSdk\<lparr>resource_Default :=
        Some (''https://opentelemetry.io/schemas/1.26.0'',
              [KeyValue ''telemetry.sdk.language'' ''go''])\<rparr>"

text \<open>A process that has registered nothing yet, with a given environment.\<close>

definition freshProcess :: "environ \<Rightarrow> (string, demo_resource, propagator) world" where
  "freshProcess env =
     \<lparr>environ = env, globalTracerProvider = None,
      globalTextMapPropagator = NoopPropagator, providers = [], jaegerCalls = []\<rparr>"

text \<open>Environments: \<open>JAEGER_ADDRESS\<close> absent, set to the empty string, set to a
  collector endpoint.\<close>

definition unsetEnv :: environ where
  "unsetEnv = Map.empty"

definition blankEnv :: environ where
  "blankEnv = [''JAEGER_ADDRESS'' \<mapsto> []]"

definition collectorEnv :: environ where
  "collectorEnv = [''JAEGER_ADDRESS'' \<mapsto> ''http://localhost:14268/api/traces'']"

text \<open>An address for which this instance's \<open>jaeger.New\<close> returns an error.\<close>

definition schemelessEnv :: environ where
  "schemelessEnv = [''JAEGER_ADDRESS'' \<mapsto> ''localhost:14268'']"

text \<open>A process in which tracing was registered earlier and whose environment has
  changed since.\<close>

definition tracedProcess :: "environ \<Rightarrow> (string, demo_resource, propagator) world" where
  "tracedProcess env =
     \<lparr>environ = env, globalTracerProvider = Some 0,
      globalTextMapPropagator = TraceContextPropagator,
      providers = [\<lparr>options = [WithBatcher (Some ''http://localhost:14268/api/traces''),
                               WithResource None],
                    isShutdown = False\<rparr>],
      jaegerCalls = [WithCollectorEndpoint [WithEndpoint ''http://localhost:14268/api/traces'']]\<rparr>"

text \<open>A handler that answers with the trace ID it finds in the request's context.\<close>

definition reportTraceID ::
  "(string, demo_resource, propagator, string option) Handler" where
  "reportTraceID rw r w =
     (rw\<lparr>status := Some 200,
         written := (case Context r of None \<Rightarrow> ''no active trace'' | Some t \<Rightarrow> t)\<rparr>, w)"

definition emptyResponse :: ResponseWriter where
  "emptyResponse = \<lparr>respHeader = Map.empty, status = None, written = []\<rparr>"

definition tracedRequest :: "string option Request" where
  "tracedRequest =
     \<lparr>Method = ''GET'', URL = ''/orders'',
      Header = [''Traceparent'' \<mapsto> [''00-4bf92f3577b34da6a3ce929d0e0e4736-00f067aa0ba902b7-01'']],
      Body = [], Context = None\<rparr>"

text \<open>A request without tracing headers whose context already carries a trace, as
  when an earlier handler of the chain has started one.\<close>

definition upstreamRequest :: "string option Request" where
  "upstreamRequest =
     \<lparr>Method = ''GET'', URL = ''/orders'', Header = [''Accept'' \<mapsto> [''*/*'']],
      Body = [], Context = Some ''0af7651916cd43dd8448eb211c80319c''\<rparr>"

definition plainRequest :: "string option Request" where
  "plainRequest =
     \<lparr>Method = ''GET'', URL = ''/orders'', Header = [''Accept'' \<mapsto> [''*/*'']],
      Body = [], Context = None\<rparr>"

section \<open>What the wrapper relies on from the libraries\<close>

text \<open>A propagator honours \<open>traceparent\<close> when the context it extracts carries the
  trace ID of a valid header, and the trace of the incoming context otherwise.\<close>

definition honours_traceparent :: "('x, 'e, 'r, 'p, 'c) sdk \<Rightarrow> 'p \<Rightarrow> bool" where
  "honours_traceparent lib p \<longleftrightarrow>
     (\<forall>ctx h. contextTraceID lib (Extract lib p ctx h) =
        (case headerTraceID lib h of Some t \<Rightarrow> Some t | None \<Rightarrow> contextTraceID lib ctx))"

text \<open>A propagator adds no trace of its own when, given headers with no valid trace ID,
  the context it returns carries the trace of the incoming context.\<close>

definition adds_no_trace :: "('x, 'e, 'r, 'p, 'c) sdk \<Rightarrow> 'p \<Rightarrow> bool" where
  "adds_no_trace lib p \<longleftrightarrow>
     (\<forall>ctx h. headerTraceID lib h = None \<longrightarrow>
        contextTraceID lib (Extract lib p ctx h) = contextTraceID lib ctx)"

text \<open>Merging keeps the attribute of its second argument: when \<open>resource.Merge\<close> of
  any resource with the one made from a single attribute whose key is not empty returns
  no error, it returns a resource that holds this attribute. (An attribute with an
  empty key is not valid, and \<open>resource.NewWithAttributes\<close> may drop it; nothing is
  required for it.)\<close>

definition merge_keeps_attribute :: "('x, 'e, 'r, 'p, 'c) sdk \<Rightarrow> bool" where
  "merge_keeps_attribute lib \<longleftrightarrow>
     (\<forall>a url kv r. Key kv \<noteq> [] \<longrightarrow>
        resource_Merge lib a (resource_NewWithAttributes lib url [kv]) = (r, None) \<longrightarrow>
        (\<exists>res. r = Some res \<and> kv \<in> set (resource_Attributes lib res)))"


section \<open>Missing collector address\<close>

lemma newExporter_missing:
  "Getenv (environ w) ''JAEGER_ADDRESS'' = [] \<Longrightarrow>
   newExporter lib w = ((None, Some (errors_New JAEGER_ADDRESS_missing)), w)"
  by (simp add: newExporter_def)

text \<open>On an error of \<open>newExporter\<close> every initialiser returns that error with a nil
  result, in the state \<open>newExporter\<close> left.\<close>

lemma Init_exporter_error:
  assumes "newExporter lib w = ((x, Some err), w0)"
  shows "InitTracerProvider lib serviceName w = (Returns (None, Some err), w0)"
    and "InitTracer lib serviceName w = (Returns (None, Some err), w0)"
    and "traceLib_InitTracer lib serviceName w = (Returns (None, Some err), w0)"
  using assms by (simp_all add: InitTracerProvider_def InitTracer_def traceLib_InitTracer_def)

text \<open>
  C1. When the environment variable \<open>JAEGER_ADDRESS\<close> is missing, each of the three
  initialisers returns (it does not panic) a nil provider or tracer together with the
  error made by \<open>errors.New\<close> from the fixed message naming the variable, and the process
  state is as it was.
\<close>

theorem C1_missing_address:
  assumes "environ w ''JAEGER_ADDRESS'' = None"
  shows "InitTracerProvider lib serviceName w
           = (Returns (None, Some (errors_New
               ''couldn't read .env variables for JAEGER_ADDRESS. Please check if you provided it correctly'')), w)
       \<and> InitTracer lib serviceName w
           = (Returns (None, Some (errors_New
               ''couldn't read .env variables for JAEGER_ADDRESS. Please check if you provided it correctly'')), w)
       \<and> traceLib_InitTracer lib serviceName w
           = (Returns (None, Some (errors_New
               ''couldn't read .env variables for JAEGER_ADDRESS. Please check if you provided it correctly'')), w)"
proof -
  from assms have "Getenv (environ w) ''JAEGER_ADDRESS'' = []"
    by (simp add: Getenv_def)
  then have "newExporter lib w = ((None, Some (errors_New JAEGER_ADDRESS_missing)), w)"
    by (rule newExporter_missing)
  from Init_exporter_error [OF this, of serviceName] show ?thesis
    by (simp add: JAEGER_ADDRESS_missing_def)
qed

theorem C1_missing_address_witness:
  "environ (freshProcess unsetEnv) ''JAEGER_ADDRESS'' = None
   \<and> InitTracerProvider demoSdk ''checkout-svc'' (freshProcess unsetEnv)
       = (Returns (None, Some (errors_New
           ''couldn't read .env variables for JAEGER_ADDRESS. Please check if you provided it correctly'')),
          freshProcess unsetEnv)
   \<and> InitTracer demoSdk ''checkout-svc'' (freshProcess unsetEnv)
       = (Returns (None, Some (errors_New
           ''couldn't read .env variables for JAEGER_ADDRESS. Please check if you provided it correctly'')),
          freshProcess unsetEnv)
   \<and> traceLib_InitTracer demoSdk ''checkout-svc'' (freshProcess unsetEnv)
       = (Returns (None, Some (errors_New
           ''couldn't read .env variables for JAEGER_ADDRESS. Please check if you provided it correctly'')),
          freshProcess unsetEnv)"
proof -
  have h: "environ (freshProcess unsetEnv) ''JAEGER_ADDRESS'' = None"
    by (simp add: freshProcess_def unsetEnv_def)
  from h C1_missing_address [OF h, of demoSdk "''checkout-svc''"] show ?thesis
    by blast
qed

section \<open>Errors of the exporter\<close>

lemma newExporter_failed:
  assumes "Getenv (environ w) ''JAEGER_ADDRESS'' = addr" and "addr \<noteq> []"
    and "jaeger_New lib (WithCollectorEndpoint [WithEndpoint addr]) = (x, Some err)"
  shows "newExporter lib w =
           ((None, Some err),
            w\<lparr>jaegerCalls := jaegerCalls w @ [WithCollectorEndpoint [WithEndpoint addr]]\<rparr>)"
  using assms by (simp add: newExporter_def call_jaeger_New_def)

lemma newExporter_built:
  assumes "Getenv (environ w) ''JAEGER_ADDRESS'' = addr" and "addr \<noteq> []"
    and "jaeger_New lib (WithCollectorEndpoint [WithEndpoint addr]) = (x, None)"
  shows "newExporter lib w =
           ((x, None),
            w\<lparr>jaegerCalls := jaegerCalls w @ [WithCollectorEndpoint [WithEndpoint addr]]\<rparr>)"
  using assms by (simp add: newExporter_def call_jaeger_New_def)

text \<open>\<open>newExporter\<close> allocates and registers nothing.\<close>

lemma newExporter_keeps:
  assumes "newExporter lib w = (res, w0)"
  shows "globalTracerProvider w0 = globalTracerProvider w"
    and "globalTextMapPropagator w0 = globalTextMapPropagator w"
    and "providers w0 = providers w"
    and "environ w0 = environ w"
  using assms
  by (auto simp: newExporter_def call_jaeger_New_def Let_def
      split: if_splits prod.splits option.splits)

text \<open>An initialiser that returns an error got it from \<open>newExporter\<close>.\<close>

lemma InitTracerProvider_error_origin:
  assumes "fst (InitTracerProvider lib serviceName w) = Returns (res, Some err)"
  shows "\<exists>x w0. newExporter lib w = ((x, Some err), w0)"
  using assms
  by (auto simp: InitTracerProvider_def Let_def split: prod.splits option.splits outcome.splits)

lemma InitTracer_error_origin:
  assumes "fst (InitTracer lib serviceName w) = Returns (res, Some err)"
  shows "\<exists>x w0. newExporter lib w = ((x, Some err), w0)"
  using assms
  by (auto simp: InitTracer_def Let_def split: prod.splits option.splits outcome.splits)

lemma traceLib_InitTracer_error_origin:
  assumes "fst (traceLib_InitTracer lib serviceName w) = Returns (res, Some err)"
  shows "\<exists>x w0. newExporter lib w = ((x, Some err), w0)"
  using assms
  by (auto simp: traceLib_InitTracer_def Let_def split: prod.splits option.splits outcome.splits)

text \<open>
  C7. When \<open>JAEGER_ADDRESS\<close> is not empty and \<open>jaeger.New\<close>, called with the collector
  endpoint made from that address, returns an error, \<open>newExporter\<close> returns a nil
  exporter and that same error, and each initialiser returns a nil provider or tracer
  and that same error. There is no retry: the state each of them leaves differs from
  the initial one by exactly one call of \<open>jaeger.New\<close>.
\<close>

theorem C7_exporter_error_unchanged:
  assumes "Getenv (environ w) ''JAEGER_ADDRESS'' = addr" and "addr \<noteq> []"
    and "jaeger_New lib (WithCollectorEndpoint [WithEndpoint addr]) = (x, Some err)"
  shows "newExporter lib w =
           ((None, Some err),
            w\<lparr>jaegerCalls := jaegerCalls w @ [WithCollectorEndpoint [WithEndpoint addr]]\<rparr>)
       \<and> InitTracerProvider lib serviceName w =
           (Returns (None, Some err),
            w\<lparr>jaegerCalls := jaegerCalls w @ [WithCollectorEndpoint [WithEndpoint addr]]\<rparr>)
       \<and> InitTracer lib serviceName w =
           (Returns (None, Some err),
            w\<lparr>jaegerCalls := jaegerCalls w @ [WithCollectorEndpoint [WithEndpoint addr]]\<rparr>)
       \<and> traceLib_InitTracer lib serviceName w =
           (Returns (None, Some err),
            w\<lparr>jaegerCalls := jaegerCalls w @ [WithCollectorEndpoint [WithEndpoint addr]]\<rparr>)"
proof -
  have e: "newExporter lib w =
             ((None, Some err),
              w\<lparr>jaegerCalls := jaegerCalls w @ [WithCollectorEndpoint [WithEndpoint addr]]\<rparr>)"
    using assms by (rule newExporter_failed)
  with Init_exporter_error [OF e, of serviceName] show ?thesis
    by simp
qed

theorem C7_exporter_error_unchanged_witness:
  "Getenv (environ (freshProcess schemelessEnv)) ''JAEGER_ADDRESS'' = ''localhost:14268''
   \<and> ''localhost:14268'' \<noteq> []
   \<and> jaeger_New demoSdk (WithCollectorEndpoint [WithEndpoint ''localhost:14268''])
       = (None, Some (sdk_error ''unsupported protocol scheme''))
   \<and> fst (newExporter demoSdk (freshProcess schemelessEnv))
       = (None, Some (sdk_error ''unsupported protocol scheme''))
   \<and> fst (InitTracerProvider demoSdk ''checkout-svc'' (freshProcess schemelessEnv))
       = Returns (None, Some (sdk_error ''unsupported protocol scheme''))
   \<and> fst (InitTracer demoSdk ''checkout-svc'' (freshProcess schemelessEnv))
       = Returns (None, Some (sdk_error ''unsupported protocol scheme''))
   \<and> fst (traceLib_InitTracer demoSdk ''checkout-svc'' (freshProcess schemelessEnv))
       = Returns (None, Some (sdk_error ''unsupported protocol scheme''))
   \<and> jaegerCalls (snd (InitTracerProvider demoSdk ''checkout-svc'' (freshProcess schemelessEnv)))
       = [WithCollectorEndpoint [WithEndpoint ''localhost:14268'']]"
proof -
  have a: "Getenv (environ (freshProcess schemelessEnv)) ''JAEGER_ADDRESS'' = ''localhost:14268''"
    by (simp add: Getenv_def freshProcess_def schemelessEnv_def)
  have b: "''localhost:14268'' \<noteq> []"
    by simp
  have c: "jaeger_New demoSdk (WithCollectorEndpoint [WithEndpoint ''localhost:14268''])
             = (None, Some (sdk_error ''unsupported protocol scheme''))"
    by (simp add: demoSdk_def)
  have l: "jaegerCalls (freshProcess schemelessEnv) = []"
    by (simp add: freshProcess_def)
  from a b c C7_exporter_error_unchanged [OF a b c, of "''checkout-svc''"] show ?thesis
    by (simp add: l)
qed

text \<open>
  C9. A \<open>JAEGER_ADDRESS\<close> that is set to the empty string and one that is absent are
  treated alike: in both processes \<open>newExporter\<close> and each initialiser return a nil
  result with the missing-configuration error, since the test is on the string that
  \<open>os.Getenv\<close> returns.
\<close>

theorem C9_empty_address_as_absent:
  assumes "environ w\<^sub>e ''JAEGER_ADDRESS'' = Some []"
    and "environ w\<^sub>a ''JAEGER_ADDRESS'' = None"
  shows "Getenv (environ w\<^sub>e) ''JAEGER_ADDRESS'' = Getenv (environ w\<^sub>a) ''JAEGER_ADDRESS''
       \<and> fst (newExporter lib w\<^sub>e) = fst (newExporter lib w\<^sub>a)
       \<and> fst (InitTracerProvider lib serviceName w\<^sub>e) = fst (InitTracerProvider lib serviceName w\<^sub>a)
       \<and> fst (InitTracer lib serviceName w\<^sub>e) = fst (InitTracer lib serviceName w\<^sub>a)
       \<and> fst (traceLib_InitTracer lib serviceName w\<^sub>e) = fst (traceLib_InitTracer lib serviceName w\<^sub>a)
       \<and> fst (InitTracerProvider lib serviceName w\<^sub>e)
           = Returns (None, Some (errors_New JAEGER_ADDRESS_missing))
       \<and> fst (InitTracer lib serviceName w\<^sub>e)
           = Returns (None, Some (errors_New JAEGER_ADDRESS_missing))
       \<and> fst (traceLib_InitTracer lib serviceName w\<^sub>e)
           = Returns (None, Some (errors_New JAEGER_ADDRESS_missing))"
proof -
  have ge: "Getenv (environ w\<^sub>e) ''JAEGER_ADDRESS'' = []"
    using assms(1) by (simp add: Getenv_def)
  have ga: "Getenv (environ w\<^sub>a) ''JAEGER_ADDRESS'' = []"
    using assms(2) by (simp add: Getenv_def)
  note ee = newExporter_missing [OF ge, of lib] and ea = newExporter_missing [OF ga, of lib]
  show ?thesis
    using ge ga ee ea Init_exporter_error [OF ee, of serviceName]
      Init_exporter_error [OF ea, of serviceName]
    by simp
qed

theorem C9_empty_address_as_absent_witness:
  "environ (freshProcess blankEnv) ''JAEGER_ADDRESS'' = Some []
   \<and> environ (freshProcess unsetEnv) ''JAEGER_ADDRESS'' = None
   \<and> fst (newExporter demoSdk (freshProcess blankEnv))
       = fst (newExporter demoSdk (freshProcess unsetEnv))
   \<and> fst (InitTracerProvider demoSdk ''checkout-svc'' (freshProcess blankEnv))
       = Returns (None, Some (errors_New JAEGER_ADDRESS_missing))
   \<and> fst (InitTracer demoSdk ''checkout-svc'' (freshProcess blankEnv))
       = fst (InitTracer demoSdk ''checkout-svc'' (freshProcess unsetEnv))"
proof -
  have e: "environ (freshProcess blankEnv) ''JAEGER_ADDRESS'' = Some []"
    by (simp add: freshProcess_def blankEnv_def)
  have a: "environ (freshProcess unsetEnv) ''JAEGER_ADDRESS'' = None"
    by (simp add: freshProcess_def unsetEnv_def)
  from e a C9_empty_address_as_absent [OF e a, of demoSdk "''checkout-svc''"] show ?thesis
    by blast
qed

section \<open>The globals on the error path\<close>

text \<open>
  C10. Whenever \<open>InitTracerProvider\<close> or either \<open>InitTracer\<close> returns a non-nil error,
  the global tracer provider and the global text-map propagator of the resulting
  process state are those of the state before the call, and no provider has been
  allocated: both registrations come after the exporter has been built.
\<close>

theorem C10_error_leaves_globals:
  "(fst (InitTracerProvider lib serviceName w) = Returns (res, Some err) \<longrightarrow>
      globalTracerProvider (snd (InitTracerProvider lib serviceName w)) = globalTracerProvider w
    \<and> globalTextMapPropagator (snd (InitTracerProvider lib serviceName w)) = globalTextMapPropagator w
    \<and> providers (snd (InitTracerProvider lib serviceName w)) = providers w)
 \<and> (fst (InitTracer lib serviceName w) = Returns (res', Some err') \<longrightarrow>
      globalTracerProvider (snd (InitTracer lib serviceName w)) = globalTracerProvider w
    \<and> globalTextMapPropagator (snd (InitTracer lib serviceName w)) = globalTextMapPropagator w
    \<and> providers (snd (InitTracer lib serviceName w)) = providers w)
 \<and> (fst (traceLib_InitTracer lib serviceName w) = Returns (res', Some err') \<longrightarrow>
      globalTracerProvider (snd (traceLib_InitTracer lib serviceName w)) = globalTracerProvider w
    \<and> globalTextMapPropagator (snd (traceLib_InitTracer lib serviceName w)) = globalTextMapPropagator w
    \<and> providers (snd (traceLib_InitTracer lib serviceName w)) = providers w)"
proof (intro conjI impI)
  assume "fst (InitTracerProvider lib serviceName w) = Returns (res, Some err)"
  then obtain x w0 where e: "newExporter lib w = ((x, Some err), w0)"
    using InitTracerProvider_error_origin by blast
  then have r: "InitTracerProvider lib serviceName w = (Returns (None, Some err), w0)"
    by (rule Init_exporter_error)
  show "globalTracerProvider (snd (InitTracerProvider lib serviceName w)) = globalTracerProvider w"
    and "globalTextMapPropagator (snd (InitTracerProvider lib serviceName w)) = globalTextMapPropagator w"
    and "providers (snd (InitTracerProvider lib serviceName w)) = providers w"
    by (simp_all add: r newExporter_keeps [OF e])
next
  assume "fst (InitTracer lib serviceName w) = Returns (res', Some err')"
  then obtain x w0 where e: "newExporter lib w = ((x, Some err'), w0)"
    using InitTracer_error_origin by blast
  then have r: "InitTracer lib serviceName w = (Returns (None, Some err'), w0)"
    by (rule Init_exporter_error)
  show "globalTracerProvider (snd (InitTracer lib serviceName w)) = globalTracerProvider w"
    and "globalTextMapPropagator (snd (InitTracer lib serviceName w)) = globalTextMapPropagator w"
    and "providers (snd (InitTracer lib serviceName w)) = providers w"
    by (simp_all add: r newExporter_keeps [OF e])
next
  assume "fst (traceLib_InitTracer lib serviceName w) = Returns (res', Some err')"
  then obtain x w0 where e: "newExporter lib w = ((x, Some err'), w0)"
    using traceLib_InitTracer_error_origin by blast
  then have r: "traceLib_InitTracer lib serviceName w = (Returns (None, Some err'), w0)"
    by (rule Init_exporter_error)
  show "globalTracerProvider (snd (traceLib_InitTracer lib serviceName w)) = globalTracerProvider w"
    and "globalTextMapPropagator (snd (traceLib_InitTracer lib serviceName w)) = globalTextMapPropagator w"
    and "providers (snd (traceLib_InitTracer lib serviceName w)) = providers w"
    by (simp_all add: r newExporter_keeps [OF e])
qed

theorem C10_error_leaves_globals_witness:
  "fst (InitTracerProvider demoSdk ''billing'' (tracedProcess schemelessEnv))
     = Returns (None, Some (sdk_error ''unsupported protocol scheme''))
   \<and> fst (InitTracer demoSdk ''billing'' (tracedProcess schemelessEnv))
     = Returns (None, Some (sdk_error ''unsupported protocol scheme''))
   \<and> fst (traceLib_InitTracer demoSdk ''billing'' (tracedProcess schemelessEnv))
     = Returns (None, Some (sdk_error ''unsupported protocol scheme''))
   \<and> globalTracerProvider (snd (InitTracerProvider demoSdk ''billing'' (tracedProcess schemelessEnv)))
     = Some 0
   \<and> globalTextMapPropagator (snd (InitTracerProvider demoSdk ''billing'' (tracedProcess schemelessEnv)))
     = TraceContextPropagator
   \<and> globalTracerProvider (snd (InitTracer demoSdk ''billing'' (tracedProcess schemelessEnv)))
     = Some 0
   \<and> globalTextMapPropagator (snd (InitTracer demoSdk ''billing'' (tracedProcess schemelessEnv)))
     = TraceContextPropagator
   \<and> globalTracerProvider (snd (traceLib_InitTracer demoSdk ''billing'' (tracedProcess schemelessEnv)))
     = Some 0
   \<and> globalTextMapPropagator (snd (traceLib_InitTracer demoSdk ''billing'' (tracedProcess schemelessEnv)))
     = TraceContextPropagator"
proof -
  have "fst (newExporter demoSdk (tracedProcess schemelessEnv))
             = (None, Some (sdk_error ''unsupported protocol scheme''))"
    by (simp add: newExporter_def call_jaeger_New_def Getenv_def tracedProcess_def
        schemelessEnv_def demoSdk_def Let_def)
  then obtain w0 where x: "newExporter demoSdk (tracedProcess schemelessEnv)
             = ((None, Some (sdk_error ''unsupported protocol scheme'')), w0)"
    by (cases "newExporter demoSdk (tracedProcess schemelessEnv)") simp
  have a: "fst (InitTracerProvider demoSdk ''billing'' (tracedProcess schemelessEnv))
             = Returns (None, Some (sdk_error ''unsupported protocol scheme''))"
    by (simp add: Init_exporter_error [OF x])
  have b: "fst (InitTracer demoSdk ''billing'' (tracedProcess schemelessEnv))
             = Returns (None, Some (sdk_error ''unsupported protocol scheme''))"
    by (simp add: Init_exporter_error [OF x])
  have c: "fst (traceLib_InitTracer demoSdk ''billing'' (tracedProcess schemelessEnv))
             = Returns (None, Some (sdk_error ''unsupported protocol scheme''))"
    by (simp add: Init_exporter_error [OF x])
  have g: "globalTracerProvider (tracedProcess schemelessEnv) = Some 0"
    "globalTextMapPropagator (tracedProcess schemelessEnv) = TraceContextPropagator"
    by (simp_all add: tracedProcess_def)
  from a b c g
    C10_error_leaves_globals [of demoSdk "''billing''" "tracedProcess schemelessEnv"
      None "sdk_error ''unsupported protocol scheme''"
      None "sdk_error ''unsupported protocol scheme''"]
  show ?thesis
    by simp
qed

section \<open>Building the provider\<close>

lemma newTraceProvider_panics:
  assumes "serviceResource lib serviceName = (r, Some err)"
  shows "newTraceProvider lib exp serviceName w = (Panics err, w)"
  using assms by (simp add: newTraceProvider_def)

lemma newTraceProvider_returns:
  assumes "serviceResource lib serviceName = (r, None)"
  shows "newTraceProvider lib exp serviceName w =
           (Returns (length (providers w)),
            w\<lparr>providers := providers w
                 @ [\<lparr>options = [WithBatcher exp, WithResource r], isShutdown = False\<rparr>]\<rparr>)"
  using assms by (simp add: newTraceProvider_def NewTracerProvider_def)

text \<open>
  C3. If the merge of the default resource with the service-name resource returns an
  error, \<open>newTraceProvider\<close> panics with that error (nothing is allocated or registered);
  if the merge returns no error, \<open>newTraceProvider\<close> returns a provider. Its result is
  a provider alone, so the panic is its only way to report a failure, and it panics in
  no other case.
\<close>

theorem C3_merge_failure_panics:
  "(serviceResource lib serviceName = (r, Some err) \<longrightarrow>
      newTraceProvider lib exp serviceName w = (Panics err, w))
 \<and> (serviceResource lib serviceName = (r, None) \<longrightarrow>
      (\<exists>tp w'. newTraceProvider lib exp serviceName w = (Returns tp, w')))
 \<and> (fst (newTraceProvider lib exp serviceName w) = Panics err \<longrightarrow>
      snd (serviceResource lib serviceName) = Some err)"
proof (intro conjI impI)
  assume "serviceResource lib serviceName = (r, Some err)"
  then show "newTraceProvider lib exp serviceName w = (Panics err, w)"
    by (rule newTraceProvider_panics)
next
  assume "serviceResource lib serviceName = (r, None)"
  then show "\<exists>tp w'. newTraceProvider lib exp serviceName w = (Returns tp, w')"
    using newTraceProvider_returns by blast
next
  assume p: "fst (newTraceProvider lib exp serviceName w) = Panics err"
  obtain r' e' where m: "serviceResource lib serviceName = (r', e')"
    by (cases "serviceResource lib serviceName")
  show "snd (serviceResource lib serviceName) = Some err"
  proof (cases e')
    case None
    with m p show ?thesis
      by (simp add: newTraceProvider_returns)
  next
    case (Some e)
    with m p show ?thesis
      by (simp add: newTraceProvider_panics)
  qed
qed

theorem C3_merge_failure_panics_witness:
  "serviceResource newerSdk ''checkout-svc'' = (None, Some (sdk_error ''conflicting Schema URL''))
   \<and> newTraceProvider newerSdk (Some ''http://localhost:14268/api/traces'') ''checkout-svc''
        (freshProcess collectorEnv)
       = (Panics (sdk_error ''conflicting Schema URL''), freshProcess collectorEnv)
   \<and> serviceResource demoSdk ''checkout-svc''
       = (Some (''https://opentelemetry.io/schemas/1.12.0'',
                [KeyValue ''service.name'' ''checkout-svc'',
                 KeyValue ''telemetry.sdk.language'' ''go'']), None)
   \<and> (\<exists>tp w'. newTraceProvider demoSdk (Some ''http://localhost:14268/api/traces'')
                  ''checkout-svc'' (freshProcess collectorEnv) = (Returns tp, w'))
   \<and> fst (newTraceProvider newerSdk (Some ''http://localhost:14268/api/traces'') ''checkout-svc''
        (freshProcess collectorEnv)) = Panics (sdk_error ''conflicting Schema URL'')
   \<and> snd (serviceResource newerSdk ''checkout-svc'') = Some (sdk_error ''conflicting Schema URL'')"
proof -
  have a: "serviceResource newerSdk ''checkout-svc''
             = (None, Some (sdk_error ''conflicting Schema URL''))"
    by (simp add: newerSdk_def demoSdk_def ServiceNameKey_String_def)
  have b: "serviceResource demoSdk ''checkout-svc''
             = (Some (''https://opentelemetry.io/schemas/1.12.0'',
                      [KeyValue ''service.name'' ''checkout-svc'',
                       KeyValue ''telemetry.sdk.language'' ''go'']), None)"
    by (simp add: demoSdk_def ServiceNameKey_String_def ServiceNameKey_def)
  note n = C3_merge_failure_panics [of newerSdk "''checkout-svc''" None
      "sdk_error ''conflicting Schema URL''" "Some ''http://localhost:14268/api/traces''"
      "freshProcess collectorEnv"]
  note d = C3_merge_failure_panics [of demoSdk "''checkout-svc''"
      "Some (''https://opentelemetry.io/schemas/1.12.0'',
             [KeyValue ''service.name'' ''checkout-svc'',
              KeyValue ''telemetry.sdk.language'' ''go''])"
      "sdk_error ''conflicting Schema URL''" "Some ''http://localhost:14268/api/traces''"
      "freshProcess collectorEnv"]
  have p: "newTraceProvider newerSdk (Some ''http://localhost:14268/api/traces'') ''checkout-svc''
        (freshProcess collectorEnv)
       = (Panics (sdk_error ''conflicting Schema URL''), freshProcess collectorEnv)"
    using n a by blast
  have q: "\<exists>tp w'. newTraceProvider demoSdk (Some ''http://localhost:14268/api/traces'')
                  ''checkout-svc'' (freshProcess collectorEnv) = (Returns tp, w')"
    using d b by blast
  have f: "fst (newTraceProvider newerSdk (Some ''http://localhost:14268/api/traces'') ''checkout-svc''
        (freshProcess collectorEnv)) = Panics (sdk_error ''conflicting Schema URL'')"
    using p by simp
  have s: "snd (serviceResource newerSdk ''checkout-svc'') = Some (sdk_error ''conflicting Schema URL'')"
    using n f by blast
  from a p b q f s show ?thesis
    by blast
qed


section \<open>Successful initialisation\<close>

lemma newExporter_success_origin:
  assumes "newExporter lib w = ((exp, None), w0)"
  shows "Getenv (environ w) ''JAEGER_ADDRESS'' \<noteq> []"
    and "jaeger_New lib (WithCollectorEndpoint [WithEndpoint (Getenv (environ w) ''JAEGER_ADDRESS'')])
           = (exp, None)"
  using assms
  by (auto simp: newExporter_def call_jaeger_New_def Let_def
      split: if_splits prod.splits option.splits)

lemma InitTracerProvider_success:
  assumes "newExporter lib w = ((exp, None), w0)" and "serviceResource lib serviceName = (r, None)"
  shows "InitTracerProvider lib serviceName w =
           (Returns (Some (length (providers w)), None),
            w0\<lparr>providers := providers w
                 @ [\<lparr>options = [WithBatcher exp, WithResource r], isShutdown = False\<rparr>],
               globalTracerProvider := Some (length (providers w)),
               globalTextMapPropagator := propagation_TraceContext lib\<rparr>)"
  using assms newExporter_keeps(3) [OF assms(1)]
  by (simp add: InitTracerProvider_def newTraceProvider_returns SetTracerProvider_def
      SetTextMapPropagator_def)

lemma InitTracer_success:
  assumes "newExporter lib w = ((exp, None), w0)" and "serviceResource lib serviceName = (r, None)"
  shows "InitTracer lib serviceName w =
           (Returns (Some \<lparr>provider = length (providers w),
                           instrumentationName = tracer_name lib serviceName\<rparr>, None),
            w0\<lparr>providers := providers w
                 @ [\<lparr>options = [WithBatcher exp, WithResource r], isShutdown = True\<rparr>],
               globalTracerProvider := Some (length (providers w)),
               globalTextMapPropagator := propagation_TraceContext lib\<rparr>)"
  using assms newExporter_keeps(3) [OF assms(1)]
  by (simp add: InitTracer_def newTraceProvider_returns SetTracerProvider_def
      SetTextMapPropagator_def Shutdown_def TracerProvider_Tracer_def)

lemma traceLib_InitTracer_success:
  assumes "newExporter lib w = ((exp, None), w0)" and "serviceResource lib serviceName = (r, None)"
  shows "traceLib_InitTracer lib serviceName w =
           (Returns (Some \<lparr>provider = length (providers w),
                           instrumentationName = tracer_name lib serviceName\<rparr>, None),
            w0\<lparr>providers := providers w
                 @ [\<lparr>options = [WithBatcher exp, WithResource r], isShutdown = True\<rparr>],
               globalTracerProvider := Some (length (providers w)),
               globalTextMapPropagator := propagation_TraceContext lib\<rparr>)"
  using assms newExporter_keeps(3) [OF assms(1)]
  by (simp add: traceLib_InitTracer_def newTraceProvider_returns SetTracerProvider_def
      SetTextMapPropagator_def Shutdown_def TracerProvider_Tracer_def)

text \<open>An initialiser that returns a nil error has built the exporter and merged the
  resources without error.\<close>

lemma InitTracerProvider_success_origin:
  assumes "fst (InitTracerProvider lib serviceName w) = Returns (res, None)"
  shows "\<exists>exp w0 r. newExporter lib w = ((exp, None), w0)
           \<and> serviceResource lib serviceName = (r, None)"
  using assms
  by (auto simp: InitTracerProvider_def newTraceProvider_def Let_def
      split: prod.splits option.splits outcome.splits)

lemma InitTracer_success_origin:
  assumes "fst (InitTracer lib serviceName w) = Returns (res, None)"
  shows "\<exists>exp w0 r. newExporter lib w = ((exp, None), w0)
           \<and> serviceResource lib serviceName = (r, None)"
  using assms
  by (auto simp: InitTracer_def newTraceProvider_def Let_def
      split: prod.splits option.splits outcome.splits)

lemma traceLib_InitTracer_success_origin:
  assumes "fst (traceLib_InitTracer lib serviceName w) = Returns (res, None)"
  shows "\<exists>exp w0 r. newExporter lib w = ((exp, None), w0)
           \<and> serviceResource lib serviceName = (r, None)"
  using assms
  by (auto simp: traceLib_InitTracer_def newTraceProvider_def Let_def
      split: prod.splits option.splits outcome.splits)

lemma demo_collector_exporter:
  "newExporter demoSdk (freshProcess collectorEnv)
     = ((Some ''http://localhost:14268/api/traces'', None),
        (freshProcess collectorEnv)
          \<lparr>jaegerCalls := [WithCollectorEndpoint [WithEndpoint ''http://localhost:14268/api/traces'']]\<rparr>)"
  "newExporter newerSdk (freshProcess collectorEnv)
     = ((Some ''http://localhost:14268/api/traces'', None),
        (freshProcess collectorEnv)
          \<lparr>jaegerCalls := [WithCollectorEndpoint [WithEndpoint ''http://localhost:14268/api/traces'']]\<rparr>)"
  by (simp_all add: newExporter_def call_jaeger_New_def Let_def Getenv_def freshProcess_def
      collectorEnv_def demoSdk_def newerSdk_def)

lemma demo_serviceResource:
  "serviceResource demoSdk ''checkout-svc''
     = (Some (''https://opentelemetry.io/schemas/1.12.0'',
              [KeyValue ''service.name'' ''checkout-svc'',
               KeyValue ''telemetry.sdk.language'' ''go'']), None)"
  by (simp add: demoSdk_def ServiceNameKey_String_def ServiceNameKey_def)

lemma newer_serviceResource:
  "serviceResource newerSdk ''checkout-svc'' = (None, Some (sdk_error ''conflicting Schema URL''))"
  by (simp add: newerSdk_def demoSdk_def ServiceNameKey_String_def)

text \<open>
  C2, as stated, fails: with a non-empty \<open>JAEGER_ADDRESS\<close> and an exporter that was
  built, \<open>InitTracerProvider\<close> does not return when the resources do not merge; it
  panics, and nothing is registered.
\<close>

theorem C2_counterexample:
  "Getenv (environ (freshProcess collectorEnv)) ''JAEGER_ADDRESS'' = ''http://localhost:14268/api/traces''
   \<and> jaeger_New newerSdk (WithCollectorEndpoint [WithEndpoint ''http://localhost:14268/api/traces''])
       = (Some ''http://localhost:14268/api/traces'', None)
   \<and> fst (InitTracerProvider newerSdk ''checkout-svc'' (freshProcess collectorEnv))
       = Panics (sdk_error ''conflicting Schema URL'')
   \<and> globalTracerProvider (snd (InitTracerProvider newerSdk ''checkout-svc'' (freshProcess collectorEnv)))
       = None
   \<and> globalTextMapPropagator (snd (InitTracerProvider newerSdk ''checkout-svc'' (freshProcess collectorEnv)))
       = NoopPropagator"
proof -
  have "InitTracerProvider newerSdk ''checkout-svc'' (freshProcess collectorEnv)
       = (Panics (sdk_error ''conflicting Schema URL''),
          (freshProcess collectorEnv)
            \<lparr>jaegerCalls := [WithCollectorEndpoint [WithEndpoint ''http://localhost:14268/api/traces'']]\<rparr>)"
    by (simp add: InitTracerProvider_def demo_collector_exporter
        newTraceProvider_panics [OF newer_serviceResource])
  then show ?thesis
    by (simp add: Getenv_def freshProcess_def collectorEnv_def newerSdk_def demoSdk_def)
qed

text \<open>
  C2, amended. For every non-empty \<open>JAEGER_ADDRESS\<close> and every service name, when the
  exporter is built and the resources merge without error, each initialiser returns a
  non-nil provider (\<open>InitTracerProvider\<close>) or tracer (both \<open>InitTracer\<close>) and a nil
  error; in the resulting state the global tracer provider is the provider just
  constructed (with the batcher around the exporter and the merged resource) and the
  global propagator is \<open>propagation.TraceContext{}\<close>.
\<close>

theorem C2_success_installs_globals:
  assumes "Getenv (environ w) ''JAEGER_ADDRESS'' = addr" and "addr \<noteq> []"
    and "jaeger_New lib (WithCollectorEndpoint [WithEndpoint addr]) = (exp, None)"
    and "serviceResource lib serviceName = (r, None)"
  shows "(\<exists>tp w'. InitTracerProvider lib serviceName w = (Returns (Some tp, None), w')
            \<and> tp = length (providers w) \<and> tp < length (providers w')
            \<and> options (providers w' ! tp) = [WithBatcher exp, WithResource r]
            \<and> globalTracerProvider w' = Some tp
            \<and> globalTextMapPropagator w' = propagation_TraceContext lib)
       \<and> (\<exists>t w'. InitTracer lib serviceName w = (Returns (Some t, None), w')
            \<and> provider t = length (providers w) \<and> provider t < length (providers w')
            \<and> options (providers w' ! provider t) = [WithBatcher exp, WithResource r]
            \<and> globalTracerProvider w' = Some (provider t)
            \<and> globalTextMapPropagator w' = propagation_TraceContext lib)
       \<and> (\<exists>t w'. traceLib_InitTracer lib serviceName w = (Returns (Some t, None), w')
            \<and> provider t = length (providers w) \<and> provider t < length (providers w')
            \<and> options (providers w' ! provider t) = [WithBatcher exp, WithResource r]
            \<and> globalTracerProvider w' = Some (provider t)
            \<and> globalTextMapPropagator w' = propagation_TraceContext lib)"
proof -
  have x: "newExporter lib w =
             ((exp, None),
              w\<lparr>jaegerCalls := jaegerCalls w @ [WithCollectorEndpoint [WithEndpoint addr]]\<rparr>)"
    using assms(1-3) by (rule newExporter_built)
  show ?thesis
    by (simp add: InitTracerProvider_success [OF x assms(4)] InitTracer_success [OF x assms(4)]
        traceLib_InitTracer_success [OF x assms(4)])
qed

theorem C2_success_installs_globals_witness:
  "Getenv (environ (freshProcess collectorEnv)) ''JAEGER_ADDRESS'' = ''http://localhost:14268/api/traces''
   \<and> ''http://localhost:14268/api/traces'' \<noteq> []
   \<and> jaeger_New demoSdk (WithCollectorEndpoint [WithEndpoint ''http://localhost:14268/api/traces''])
       = (Some ''http://localhost:14268/api/traces'', None)
   \<and> (\<exists>tp w'. InitTracerProvider demoSdk ''checkout-svc'' (freshProcess collectorEnv)
                  = (Returns (Some tp, None), w')
            \<and> globalTracerProvider w' = Some tp
            \<and> globalTextMapPropagator w' = TraceContextPropagator)
   \<and> (\<exists>t w'. InitTracer demoSdk ''checkout-svc'' (freshProcess collectorEnv)
                  = (Returns (Some t, None), w')
            \<and> globalTracerProvider w' = Some (provider t)
            \<and> globalTextMapPropagator w' = TraceContextPropagator)"
proof -
  have a: "Getenv (environ (freshProcess collectorEnv)) ''JAEGER_ADDRESS''
             = ''http://localhost:14268/api/traces''"
    by (simp add: Getenv_def freshProcess_def collectorEnv_def)
  have b: "''http://localhost:14268/api/traces'' \<noteq> []"
    by simp
  have c: "jaeger_New demoSdk (WithCollectorEndpoint [WithEndpoint ''http://localhost:14268/api/traces''])
             = (Some ''http://localhost:14268/api/traces'', None)"
    by (simp add: demoSdk_def)
  have t: "propagation_TraceContext demoSdk = TraceContextPropagator"
    by (simp add: demoSdk_def)
  from C2_success_installs_globals [OF a b c demo_serviceResource]
  have "(\<exists>tp w'. InitTracerProvider demoSdk ''checkout-svc'' (freshProcess collectorEnv)
                  = (Returns (Some tp, None), w')
            \<and> globalTracerProvider w' = Some tp
            \<and> globalTextMapPropagator w' = TraceContextPropagator)"
    and "(\<exists>t w'. InitTracer demoSdk ''checkout-svc'' (freshProcess collectorEnv)
                  = (Returns (Some t, None), w')
            \<and> globalTracerProvider w' = Some (provider t)
            \<and> globalTextMapPropagator w' = TraceContextPropagator)"
    unfolding t by blast+
  with a b c show ?thesis
    by blast
qed

text \<open>
  C6. Whenever \<open>InitTracer\<close> (either copy) returns a nil error, the tracer it returns is
  the one that \<open>tp.Tracer(serviceName)\<close> gives on the provider it has just constructed
  (a new object, not one of the providers that existed before; the tracer carries the
  name the SDK gives a tracer requested under the service name), and in the state it
  leaves behind that provider has been shut down, while it is registered as the global
  tracer provider.
\<close>

theorem C6_InitTracer_shuts_provider_down:
  "(fst (InitTracer lib serviceName w) = Returns (t, None) \<longrightarrow>
      (\<exists>tracer. t = Some tracer
         \<and> tracer = TracerProvider_Tracer lib (length (providers w)) serviceName
         \<and> provider tracer = length (providers w)
         \<and> instrumentationName tracer = tracer_name lib serviceName
         \<and> length (providers (snd (InitTracer lib serviceName w))) = Suc (length (providers w))
         \<and> take (length (providers w)) (providers (snd (InitTracer lib serviceName w))) = providers w
         \<and> isShutdown (providers (snd (InitTracer lib serviceName w)) ! provider tracer)
         \<and> globalTracerProvider (snd (InitTracer lib serviceName w)) = Some (provider tracer)))
 \<and> (fst (traceLib_InitTracer lib serviceName w) = Returns (t, None) \<longrightarrow>
      (\<exists>tracer. t = Some tracer
         \<and> tracer = TracerProvider_Tracer lib (length (providers w)) serviceName
         \<and> provider tracer = length (providers w)
         \<and> instrumentationName tracer = tracer_name lib serviceName
         \<and> length (providers (snd (traceLib_InitTracer lib serviceName w))) = Suc (length (providers w))
         \<and> take (length (providers w)) (providers (snd (traceLib_InitTracer lib serviceName w)))
             = providers w
         \<and> isShutdown (providers (snd (traceLib_InitTracer lib serviceName w)) ! provider tracer)
         \<and> globalTracerProvider (snd (traceLib_InitTracer lib serviceName w))
             = Some (provider tracer)))"
proof (intro conjI impI)
  assume h: "fst (InitTracer lib serviceName w) = Returns (t, None)"
  then obtain exp w0 r where x: "newExporter lib w = ((exp, None), w0)"
    and m: "serviceResource lib serviceName = (r, None)"
    using InitTracer_success_origin by blast
  from h show "\<exists>tracer. t = Some tracer
         \<and> tracer = TracerProvider_Tracer lib (length (providers w)) serviceName
         \<and> provider tracer = length (providers w)
         \<and> instrumentationName tracer = tracer_name lib serviceName
         \<and> length (providers (snd (InitTracer lib serviceName w))) = Suc (length (providers w))
         \<and> take (length (providers w)) (providers (snd (InitTracer lib serviceName w))) = providers w
         \<and> isShutdown (providers (snd (InitTracer lib serviceName w)) ! provider tracer)
         \<and> globalTracerProvider (snd (InitTracer lib serviceName w)) = Some (provider tracer)"
    by (simp add: InitTracer_success [OF x m] TracerProvider_Tracer_def)
next
  assume h: "fst (traceLib_InitTracer lib serviceName w) = Returns (t, None)"
  then obtain exp w0 r where x: "newExporter lib w = ((exp, None), w0)"
    and m: "serviceResource lib serviceName = (r, None)"
    using traceLib_InitTracer_success_origin by blast
  from h show "\<exists>tracer. t = Some tracer
         \<and> tracer = TracerProvider_Tracer lib (length (providers w)) serviceName
         \<and> provider tracer = length (providers w)
         \<and> instrumentationName tracer = tracer_name lib serviceName
         \<and> length (providers (snd (traceLib_InitTracer lib serviceName w))) = Suc (length (providers w))
         \<and> take (length (providers w)) (providers (snd (traceLib_InitTracer lib serviceName w)))
             = providers w
         \<and> isShutdown (providers (snd (traceLib_InitTracer lib serviceName w)) ! provider tracer)
         \<and> globalTracerProvider (snd (traceLib_InitTracer lib serviceName w))
             = Some (provider tracer)"
    by (simp add: traceLib_InitTracer_success [OF x m] TracerProvider_Tracer_def)
qed

theorem C6_InitTracer_shuts_provider_down_witness:
  "fst (InitTracer demoSdk ''checkout-svc'' (freshProcess collectorEnv))
     = Returns (Some \<lparr>provider = 0, instrumentationName = ''checkout-svc''\<rparr>, None)
   \<and> fst (traceLib_InitTracer demoSdk ''checkout-svc'' (freshProcess collectorEnv))
     = Returns (Some \<lparr>provider = 0, instrumentationName = ''checkout-svc''\<rparr>, None)
   \<and> isShutdown (providers (snd (InitTracer demoSdk ''checkout-svc'' (freshProcess collectorEnv))) ! 0)
   \<and> isShutdown (providers (snd (traceLib_InitTracer demoSdk ''checkout-svc'' (freshProcess collectorEnv))) ! 0)
   \<and> globalTracerProvider (snd (InitTracer demoSdk ''checkout-svc'' (freshProcess collectorEnv)))
       = Some 0
   \<and> fst (InitTracer demoSdk [] (freshProcess collectorEnv))
     = Returns (Some \<lparr>provider = 0,
                       instrumentationName = ''go.opentelemetry.io/otel/sdk/tracer''\<rparr>, None)
   \<and> isShutdown (providers (snd (InitTracer demoSdk [] (freshProcess collectorEnv))) ! 0)"
proof -
  have l: "length (providers (freshProcess collectorEnv)) = 0"
    by (simp add: freshProcess_def)
  have n: "tracer_name demoSdk ''checkout-svc'' = ''checkout-svc''"
    "tracer_name demoSdk [] = ''go.opentelemetry.io/otel/sdk/tracer''"
    by (simp_all add: demoSdk_def)
  have u: "serviceResource demoSdk []
     = (Some (''https://opentelemetry.io/schemas/1.12.0'',
              [KeyValue ''service.name'' [],
               KeyValue ''telemetry.sdk.language'' ''go'']), None)"
    by (simp add: demoSdk_def ServiceNameKey_String_def ServiceNameKey_def)
  have a: "fst (InitTracer demoSdk ''checkout-svc'' (freshProcess collectorEnv))
             = Returns (Some \<lparr>provider = 0, instrumentationName = ''checkout-svc''\<rparr>, None)"
    by (simp add: InitTracer_success [OF demo_collector_exporter(1) demo_serviceResource] l n)
  have b: "fst (traceLib_InitTracer demoSdk ''checkout-svc'' (freshProcess collectorEnv))
             = Returns (Some \<lparr>provider = 0, instrumentationName = ''checkout-svc''\<rparr>, None)"
    by (simp add: traceLib_InitTracer_success [OF demo_collector_exporter(1) demo_serviceResource]
        l n)
  have c: "fst (InitTracer demoSdk [] (freshProcess collectorEnv))
             = Returns (Some \<lparr>provider = 0,
                  instrumentationName = ''go.opentelemetry.io/otel/sdk/tracer''\<rparr>, None)"
    by (simp add: InitTracer_success [OF demo_collector_exporter(1) u] l n)
  from a b
    C6_InitTracer_shuts_provider_down [of demoSdk "''checkout-svc''" "freshProcess collectorEnv"
      "Some \<lparr>provider = 0, instrumentationName = ''checkout-svc''\<rparr>"]
  have named: "isShutdown (providers (snd (InitTracer demoSdk ''checkout-svc''
                  (freshProcess collectorEnv))) ! 0)"
    "isShutdown (providers (snd (traceLib_InitTracer demoSdk ''checkout-svc''
                  (freshProcess collectorEnv))) ! 0)"
    "globalTracerProvider (snd (InitTracer demoSdk ''checkout-svc'' (freshProcess collectorEnv)))
       = Some 0"
    by (simp_all add: l)
  from c
    C6_InitTracer_shuts_provider_down [of demoSdk "[]" "freshProcess collectorEnv"
      "Some \<lparr>provider = 0, instrumentationName = ''go.opentelemetry.io/otel/sdk/tracer''\<rparr>"]
  have unnamed: "isShutdown (providers (snd (InitTracer demoSdk [] (freshProcess collectorEnv))) ! 0)"
    by (simp add: l)
  from a b c named unnamed show ?thesis
    by blast
qed

section \<open>The provider's configuration\<close>

lemma demo_merge_keeps_attribute: "merge_keeps_attribute demoSdk"
proof -
  have "\<exists>res. r = Some res \<and> kv \<in> set (snd res)"
    if "Key kv \<noteq> []" and "demo_Merge a (Some (url, [kv])) = (r, None)" for a url kv r
    using that by (cases a) (auto split: if_splits)
  then show ?thesis
    by (simp add: merge_keeps_attribute_def demoSdk_def)
qed

text \<open>
  C8. When the provider-returning initialiser succeeds for an address and a service
  name, the provider it returns was constructed with a batching span processor around
  the exporter that \<open>jaeger.New\<close> built for the collector endpoint of that very address,
  and with the merged resource; given that merging keeps a (validly keyed) attribute of
  its second argument, this resource holds \<open>service.name\<close> with the service name as its
  value.
\<close>

theorem C8_provider_configuration:
  assumes "Getenv (environ w) ''JAEGER_ADDRESS'' = addr"
    and "fst (InitTracerProvider lib serviceName w) = Returns (Some tp, None)"
    and "merge_keeps_attribute lib"
  shows "\<exists>exp r. jaeger_New lib (WithCollectorEndpoint [WithEndpoint addr]) = (exp, None)
           \<and> tp < length (providers (snd (InitTracerProvider lib serviceName w)))
           \<and> options (providers (snd (InitTracerProvider lib serviceName w)) ! tp)
               = [WithBatcher exp, WithResource (Some r)]
           \<and> KeyValue ''service.name'' serviceName \<in> set (resource_Attributes lib r)"
proof -
  from assms(2) obtain exp w0 r0 where x: "newExporter lib w = ((exp, None), w0)"
    and m: "serviceResource lib serviceName = (r0, None)"
    using InitTracerProvider_success_origin by blast
  from assms(1) have j: "jaeger_New lib (WithCollectorEndpoint [WithEndpoint addr]) = (exp, None)"
    using newExporter_success_origin(2) [OF x] by simp
  have "Key (ServiceNameKey_String serviceName) \<noteq> []"
    by (simp add: ServiceNameKey_String_def ServiceNameKey_def)
  with assms(3) m obtain r where r: "r0 = Some r"
    and k: "ServiceNameKey_String serviceName \<in> set (resource_Attributes lib r)"
    unfolding merge_keeps_attribute_def by blast
  from assms(2) have t: "tp = length (providers w)"
    by (simp add: InitTracerProvider_success [OF x m])
  have "tp < length (providers (snd (InitTracerProvider lib serviceName w)))"
    and "options (providers (snd (InitTracerProvider lib serviceName w)) ! tp)
           = [WithBatcher exp, WithResource (Some r)]"
    by (simp_all add: InitTracerProvider_success [OF x m] t r)
  moreover from k have "KeyValue ''service.name'' serviceName \<in> set (resource_Attributes lib r)"
    by (simp add: ServiceNameKey_String_def ServiceNameKey_def)
  ultimately show ?thesis
    using j by blast
qed

theorem C8_provider_configuration_witness:
  "Getenv (environ (freshProcess collectorEnv)) ''JAEGER_ADDRESS'' = ''http://localhost:14268/api/traces''
   \<and> fst (InitTracerProvider demoSdk ''checkout-svc'' (freshProcess collectorEnv))
       = Returns (Some 0, None)
   \<and> merge_keeps_attribute demoSdk
   \<and> (\<exists>r. options (providers (snd (InitTracerProvider demoSdk ''checkout-svc''
                                       (freshProcess collectorEnv))) ! 0)
               = [WithBatcher (Some ''http://localhost:14268/api/traces''), WithResource (Some r)]
           \<and> KeyValue ''service.name'' ''checkout-svc'' \<in> set (snd r))"
proof -
  have a: "Getenv (environ (freshProcess collectorEnv)) ''JAEGER_ADDRESS''
             = ''http://localhost:14268/api/traces''"
    by (simp add: Getenv_def freshProcess_def collectorEnv_def)
  have b: "fst (InitTracerProvider demoSdk ''checkout-svc'' (freshProcess collectorEnv))
             = Returns (Some 0, None)"
  proof -
    have "length (providers (freshProcess collectorEnv)) = 0"
      by (simp add: freshProcess_def)
    then show ?thesis
      by (simp add: InitTracerProvider_success [OF demo_collector_exporter(1) demo_serviceResource])
  qed
  have j: "jaeger_New demoSdk (WithCollectorEndpoint [WithEndpoint ''http://localhost:14268/api/traces''])
             = (exp, None) \<Longrightarrow> exp = Some ''http://localhost:14268/api/traces''" for exp
    by (simp add: demoSdk_def)
  have s: "resource_Attributes demoSdk = snd"
    by (simp add: demoSdk_def)
  from C8_provider_configuration [OF a b demo_merge_keeps_attribute] j
  have "\<exists>r. options (providers (snd (InitTracerProvider demoSdk ''checkout-svc''
                                       (freshProcess collectorEnv))) ! 0)
               = [WithBatcher (Some ''http://localhost:14268/api/traces''), WithResource (Some r)]
           \<and> KeyValue ''service.name'' ''checkout-svc'' \<in> set (snd r)"
    unfolding s by blast
  with a b demo_merge_keeps_attribute show ?thesis
    by blast
qed

section \<open>The middleware\<close>

lemma demo_honours_traceparent: "honours_traceparent demoSdk TraceContextPropagator"
  by (simp add: honours_traceparent_def demoSdk_def split: option.splits)

lemma demo_adds_no_trace: "adds_no_trace demoSdk p"
  by (cases p) (simp_all add: adds_no_trace_def demoSdk_def)

lemma traced_header:
  "traceparentTraceID (Header tracedRequest) = Some ''4bf92f3577b34da6a3ce929d0e0e4736''"
  by code_simp

lemma plain_header:
  "traceparentTraceID (Header plainRequest) = None"
  "traceparentTraceID (Header upstreamRequest) = None"
  by (simp_all add: traceparentTraceID_def plainRequest_def upstreamRequest_def)

text \<open>The middleware hands the request, rebound to the extracted context, to the next
  handler with the same response writer, and its result is the result of that
  handler.\<close>

lemma ExtractTraceInfoMiddleware_forwards:
  "ExtractTraceInfoMiddleware lib next rw r w =
     next rw (r\<lparr>Context := Extract lib (globalTextMapPropagator w) (Context r) (Header r)\<rparr>) w"
  by (simp add: ExtractTraceInfoMiddleware_def GetTextMapPropagator_def WithContext_def)

text \<open>
  C4, as stated, fails: it holds only while the global propagator reads
  \<open>traceparent\<close>. In a process whose initialisation returned the missing-address error
  (so that no propagator was registered), a request with a valid \<open>traceparent\<close>
  header reaches the next handler with no trace ID in its context.
\<close>

theorem C4_counterexample:
  "headerTraceID demoSdk (Header tracedRequest) = Some ''4bf92f3577b34da6a3ce929d0e0e4736''
   \<and> written (fst (ExtractTraceInfoMiddleware demoSdk reportTraceID emptyResponse tracedRequest
        (snd (InitTracerProvider demoSdk ''checkout-svc'' (freshProcess unsetEnv)))))
       = ''no active trace''"
proof -
  have "newExporter demoSdk (freshProcess unsetEnv)
          = ((None, Some (errors_New JAEGER_ADDRESS_missing)), freshProcess unsetEnv)"
    by (simp add: newExporter_missing Getenv_def freshProcess_def unsetEnv_def)
  then have "snd (InitTracerProvider demoSdk ''checkout-svc'' (freshProcess unsetEnv))
          = freshProcess unsetEnv"
    by (simp add: Init_exporter_error)
  then show ?thesis
    using traced_header
    by (simp add: ExtractTraceInfoMiddleware_forwards reportTraceID_def freshProcess_def
        demoSdk_def tracedRequest_def)
qed

text \<open>
  C4, amended. While the global propagator is \<open>propagation.TraceContext{}\<close> (as a
  successful initialisation registers it), and given that this propagator honours
  \<open>traceparent\<close>, for every request whose headers encode a trace ID the middleware
  invokes the next handler, whichever it is, with one and the same request, whose
  context carries exactly that trace ID.
\<close>

theorem C4_traceparent_round_trip:
  assumes "GetTextMapPropagator w = propagation_TraceContext lib"
    and "honours_traceparent lib (propagation_TraceContext lib)"
    and "headerTraceID lib (Header r) = Some traceID"
  shows "\<exists>r'. (\<forall>next rw. ExtractTraceInfoMiddleware lib next rw r w = next rw r' w)
           \<and> contextTraceID lib (Context r') = Some traceID"
proof -
  let ?ctx = "Extract lib (propagation_TraceContext lib) (Context r) (Header r)"
  have "\<forall>next rw. ExtractTraceInfoMiddleware lib next rw r w = next rw (r\<lparr>Context := ?ctx\<rparr>) w"
    using assms(1) by (simp add: ExtractTraceInfoMiddleware_forwards GetTextMapPropagator_def)
  moreover have "contextTraceID lib (Context (r\<lparr>Context := ?ctx\<rparr>)) = Some traceID"
    using assms(2,3) by (simp add: honours_traceparent_def)
  ultimately show ?thesis
    by blast
qed

theorem C4_traceparent_round_trip_witness:
  "GetTextMapPropagator (tracedProcess collectorEnv) = propagation_TraceContext demoSdk
   \<and> honours_traceparent demoSdk (propagation_TraceContext demoSdk)
   \<and> headerTraceID demoSdk (Header tracedRequest) = Some ''4bf92f3577b34da6a3ce929d0e0e4736''
   \<and> written (fst (ExtractTraceInfoMiddleware demoSdk reportTraceID emptyResponse tracedRequest
        (tracedProcess collectorEnv))) = ''4bf92f3577b34da6a3ce929d0e0e4736''"
proof -
  have a: "GetTextMapPropagator (tracedProcess collectorEnv) = propagation_TraceContext demoSdk"
    by (simp add: GetTextMapPropagator_def tracedProcess_def demoSdk_def)
  have b: "honours_traceparent demoSdk (propagation_TraceContext demoSdk)"
    using demo_honours_traceparent by (simp add: demoSdk_def)
  have c: "headerTraceID demoSdk (Header tracedRequest) = Some ''4bf92f3577b34da6a3ce929d0e0e4736''"
    using traced_header by (simp add: demoSdk_def)
  from C4_traceparent_round_trip [OF a b c] obtain r'
    where f: "ExtractTraceInfoMiddleware demoSdk reportTraceID emptyResponse tracedRequest
                (tracedProcess collectorEnv)
              = reportTraceID emptyResponse r' (tracedProcess collectorEnv)"
      and t: "contextTraceID demoSdk (Context r') = Some ''4bf92f3577b34da6a3ce929d0e0e4736''"
    by blast
  from t have "Context r' = Some ''4bf92f3577b34da6a3ce929d0e0e4736''"
    by (simp add: demoSdk_def)
  with f have "written (fst (ExtractTraceInfoMiddleware demoSdk reportTraceID emptyResponse
        tracedRequest (tracedProcess collectorEnv))) = ''4bf92f3577b34da6a3ce929d0e0e4736''"
    by (simp add: reportTraceID_def)
  with a b c show ?thesis
    by blast
qed

text \<open>
  C5, as stated, fails in one part: the context the middleware derives for a request
  without tracing headers is not always one with no active trace. A request whose
  context already carries a trace keeps it, and the next handler sees that trace.
\<close>

theorem C5_counterexample:
  "headerTraceID demoSdk (Header upstreamRequest) = None
   \<and> written (fst (ExtractTraceInfoMiddleware demoSdk reportTraceID emptyResponse upstreamRequest
        (tracedProcess collectorEnv))) = ''0af7651916cd43dd8448eb211c80319c''"
  using plain_header(2)
  by (simp add: ExtractTraceInfoMiddleware_forwards reportTraceID_def tracedProcess_def
      demoSdk_def upstreamRequest_def)

text \<open>
  C5, amended. For every request whose headers hold no valid trace ID, and given a
  global propagator that adds no trace of its own, the middleware has no failure of its
  own: it invokes the next handler, whichever it is, with the same response writer and
  one and the same request, which agrees with the incoming request in method, URL,
  headers and body; the context of that request carries the trace the incoming context
  carried, hence no active trace when the incoming context had none; and the result,
  response status and body included, is exactly what the next handler produces.
\<close>

theorem C5_no_trace_headers_pass_through:
  assumes "adds_no_trace lib (GetTextMapPropagator w)"
    and "headerTraceID lib (Header r) = None"
  shows "\<exists>r'. (\<forall>next rw. ExtractTraceInfoMiddleware lib next rw r w = next rw r' w)
           \<and> Method r' = Method r \<and> URL r' = URL r \<and> Header r' = Header r \<and> Body r' = Body r
           \<and> contextTraceID lib (Context r') = contextTraceID lib (Context r)
           \<and> (contextTraceID lib (Context r) = None \<longrightarrow> contextTraceID lib (Context r') = None)"
proof -
  let ?ctx = "Extract lib (globalTextMapPropagator w) (Context r) (Header r)"
  have "\<forall>next rw. ExtractTraceInfoMiddleware lib next rw r w = next rw (r\<lparr>Context := ?ctx\<rparr>) w"
    by (simp add: ExtractTraceInfoMiddleware_forwards)
  moreover have "contextTraceID lib (Context (r\<lparr>Context := ?ctx\<rparr>)) = contextTraceID lib (Context r)"
    using assms by (simp add: adds_no_trace_def GetTextMapPropagator_def)
  ultimately show ?thesis
    by (intro exI [of _ "r\<lparr>Context := ?ctx\<rparr>"]) simp
qed

theorem C5_no_trace_headers_pass_through_witness:
  "adds_no_trace demoSdk (GetTextMapPropagator (tracedProcess collectorEnv))
   \<and> headerTraceID demoSdk (Header plainRequest) = None
   \<and> contextTraceID demoSdk (Context plainRequest) = None
   \<and> ExtractTraceInfoMiddleware demoSdk reportTraceID emptyResponse plainRequest
        (tracedProcess collectorEnv)
       = (emptyResponse\<lparr>status := Some 200, written := ''no active trace''\<rparr>,
          tracedProcess collectorEnv)"
proof -
  have a: "adds_no_trace demoSdk (GetTextMapPropagator (tracedProcess collectorEnv))"
    by (rule demo_adds_no_trace)
  have b: "headerTraceID demoSdk (Header plainRequest) = None"
    using plain_header(1) by (simp add: demoSdk_def)
  have c: "contextTraceID demoSdk (Context plainRequest) = None"
    by (simp add: demoSdk_def plainRequest_def)
  from C5_no_trace_headers_pass_through [OF a b] c obtain r'
    where f: "ExtractTraceInfoMiddleware demoSdk reportTraceID emptyResponse plainRequest
                (tracedProcess collectorEnv)
              = reportTraceID emptyResponse r' (tracedProcess collectorEnv)"
      and t: "contextTraceID demoSdk (Context r') = None"
    by blast
  from t have "Context r' = None"
    by (simp add: demoSdk_def)
  with f have "ExtractTraceInfoMiddleware demoSdk reportTraceID emptyResponse plainRequest
        (tracedProcess collectorEnv)
       = (emptyResponse\<lparr>status := Some 200, written := ''no active trace''\<rparr>,
          tracedProcess collectorEnv)"
    by (simp add: reportTraceID_def)
  with a b c show ?thesis
    by blast
qed

end
